theory Spec2Isabelle
  imports Complex_Main "HOL-Library.AList"
begin

section \<open>Python values, exceptions and list operations\<close>

text \<open>
  The level editor is a Python program on top of a scene-graph engine.  Entities are
  objects with identity: the registry, the selection and the undo code all hold references
  to the same objects, so the model keeps an explicit object store indexed by references.
\<close>

type_synonym ref = nat

datatype exn =
  IndexError | ValueError | AttributeError | TypeError | KeyError | OSError | RuntimeError

datatype pyval =
    PNone
  | PBool bool
  | PInt int
  | PFloat real
  | PStr string
  | PRef ref
  | PVec3 real real real
  | PTuple "pyval list"

text \<open>\<^verbatim>\<open>xs[i]\<close>: a negative index counts from the end, anything out of range raises.\<close>

definition py_getitem :: "'a list \<Rightarrow> int \<Rightarrow> exn + 'a" where
  "py_getitem xs i =
     (if 0 \<le> i \<and> i < int (length xs) then Inr (xs ! nat i)
      else if i < 0 \<and> - int (length xs) \<le> i then Inr (xs ! nat (int (length xs) + i))
      else Inl IndexError)"

text \<open>\<^verbatim>\<open>xs[:k]\<close>: a negative bound counts from the end and is clamped at the front.\<close>

definition py_slice_to :: "'a list \<Rightarrow> int \<Rightarrow> 'a list" where
  "py_slice_to xs k =
     (if 0 \<le> k then take (nat k) xs else take (nat (int (length xs) + k)) xs)"

text \<open>\<^verbatim>\<open>xs.insert(i, x)\<close>: the position is clamped to the list on both sides.\<close>

definition py_insert :: "'a list \<Rightarrow> int \<Rightarrow> 'a \<Rightarrow> 'a list" where
  "py_insert xs i x =
     (let n = int (length xs);
          j = (if i < 0 then max 0 (n + i) else min i n)
      in take (nat j) xs @ [x] @ drop (nat j) xs)"

text \<open>\<^verbatim>\<open>xs.index(x)\<close>: the first position of \<open>x\<close>, or ValueError.\<close>

fun py_index :: "'a list \<Rightarrow> 'a \<Rightarrow> exn + int" where
  "py_index [] x = Inl ValueError"
| "py_index (y # ys) x =
     (if y = x then Inr 0
      else case py_index ys x of Inl e \<Rightarrow> Inl e | Inr i \<Rightarrow> Inr (i + 1))"

text \<open>A list comprehension whose element expression may raise: the first failure wins.\<close>

fun map_exn :: "('a \<Rightarrow> exn + 'b) \<Rightarrow> 'a list \<Rightarrow> exn + 'b list" where
  "map_exn f [] = Inr []"
| "map_exn f (x # xs) =
     (case f x of
        Inl e \<Rightarrow> Inl e
      | Inr y \<Rightarrow> (case map_exn f xs of Inl e \<Rightarrow> Inl e | Inr ys \<Rightarrow> Inr (y # ys)))"

text \<open>Python truthiness of a value.\<close>

fun truthy :: "pyval \<Rightarrow> bool" where
  "truthy PNone = False"
| "truthy (PBool b) = b"
| "truthy (PInt i) = (i \<noteq> 0)"
| "truthy (PFloat x) = (x \<noteq> 0)"
| "truthy (PStr s) = (s \<noteq> [])"
| "truthy (PTuple ts) = (ts \<noteq> [])"
| "truthy v = True"

section \<open>Entities, undo records and the scene cell\<close>

text \<open>
  An entity carries its class name, an open set of attributes and whether it is still a
  live node: \<^verbatim>\<open>destroy(e)\<close> empties the node, and an empty node is falsy, which is what
  \<^verbatim>\<open>if e\<close> and \<^verbatim>\<open>if self.scene_parent\<close> test.
\<close>

record obj =
  cls :: string
  attrs :: "string \<rightharpoonup> pyval"
  alive :: bool

text \<open>
  The three shapes of an undo entry: the tuples
  \<^verbatim>\<open>('restore entities', ids, recipes)\<close> and \<^verbatim>\<open>('delete entities', ids, recipes)\<close>,
  and a list of \<^verbatim>\<open>(index, attr, old, new)\<close> entries.
\<close>

datatype undo_rec =
    RestoreEntities "int list" "string list"
  | DeleteEntities "int list" "string list"
  | Changes "(int \<times> string \<times> pyval \<times> pyval) list"

text \<open>
  \<^verbatim>\<open>LevelEditorScene\<close> together with its \<^verbatim>\<open>Undo\<close> object (\<open>undo_data\<close>,
  \<open>undo_index\<close>).
\<close>

record scene =
  coordinates :: "int \<times> int"
  name :: string
  path :: "string option"
  entities :: "ref list"
  selection :: "ref list"
  scene_parent :: "ref option"
  undo_data :: "undo_rec list"
  undo_index :: int

subsection \<open>Undo.record_undo\<close>

definition record_undo :: "undo_rec \<Rightarrow> 'a scene_scheme \<Rightarrow> 'a scene_scheme" where
  "record_undo data s =
     s\<lparr>undo_data := py_slice_to (undo_data s) (undo_index s + 1) @ [data],
       undo_index := undo_index s + 1\<rparr>"

text \<open>The cursor of a log is \<open>-1\<close> (nothing applied) or the position of an entry.\<close>

definition log_ok :: "'a scene_scheme \<Rightarrow> bool" where
  "log_ok s = (- 1 \<le> undo_index s \<and> undo_index s < int (length (undo_data s)))"

section \<open>The editor restricted to its current scene\<close>

text \<open>
  \<^verbatim>\<open>LEVEL_EDITOR.entities\<close> and \<^verbatim>\<open>LEVEL_EDITOR.selection\<close> are properties that
  delegate to \<^verbatim>\<open>current_scene\<close>, and \<^verbatim>\<open>Undo.undo\<close> is only invoked as
  \<^verbatim>\<open>current_scene.undo.undo()\<close>.  A \<open>world\<close> is therefore the current scene
  extended with the object store and the scene files on disk; \<open>next_ref\<close> is the
  next unused reference.
\<close>

text \<open>
  A scene file is what \<^verbatim>\<open>csv.DictReader\<close> makes of it: the field names of the header
  (none for an empty file, and for one whose header cannot be read: \<^verbatim>\<open>load\<close> ends in
  its handler either way) and, line by line, what the \<^verbatim>\<open>for\<close> statement over the
  reader gets.  That is either an exception the reader raises at the line (a field over
  the size limit, bytes that do not decode: \<^verbatim>\<open>load\<close> opens the file without the encoding
  \<^verbatim>\<open>save\<close> wrote it in), or the dictionary of the line: its items in the order of the
  header, and the cells beyond the header, which the reader files as a list under the key
  \<^verbatim>\<open>None\<close>.  A cell missing at the end of a short line is the empty text here; the
  reader gives \<^verbatim>\<open>None\<close>, which \<^verbatim>\<open>load\<close> treats in the same way.
\<close>

datatype csv_line = Line (cells: "(string \<times> string) list") (surplus: "string list")

datatype csv_file = Csv (fieldnames: "string list option") (lines: "(exn + csv_line) list")

record world = scene +
  heap :: "ref \<Rightarrow> obj"
  next_ref :: ref
  files :: "string \<rightharpoonup> csv_file"

text \<open>
  The outcome of \<^verbatim>\<open>eval\<close> on the text of a field, inside \<^verbatim>\<open>load\<close>: a value, an
  Exception, or a value together with a change of the number of keys of the dictionary
  \<open>kwargs\<close> that \<^verbatim>\<open>load\<close> is iterating over (the expression is evaluated in the scope
  of \<^verbatim>\<open>load\<close> and can reach it).  An expression that ends the process, or that raises
  what is no Exception, has no outcome here.
\<close>

datatype eval_outcome = Value pyval | Raises exn | Disturbs

text \<open>
  What calling a class does when \<^verbatim>\<open>load\<close> instantiates it: the object it builds, the
  Exception it raises, if any, and what its \<^verbatim>\<open>__init__\<close> appends to
  \<^verbatim>\<open>LEVEL_EDITOR.entities\<close> on its own, in order -- the object itself, as
  \<^verbatim>\<open>PipeEditor\<close> does, or another new entity, as \<^verbatim>\<open>Tree\<close> does with its top.
\<close>

datatype registration = Itself | Another obj

record construction =
  built :: obj
  raised :: "exn option"
  registered :: "registration list"

text \<open>
  What the editor takes from the Python runtime and from the engine: \<^verbatim>\<open>repr(e)\<close> (the
  reconstruction recipe), \<^verbatim>\<open>eval\<close> of a recipe and of a field text, the text the csv
  writer emits for a value, \<^verbatim>\<open>Entity.get_changes\<close>, the table of imported classes,
  \<^verbatim>\<open>Entity.__init__\<close>, the engine's \<^verbatim>\<open>color.red\<close>, and what reading the attribute
  \<open>red\<close> of a value of the engine gives.
\<close>

record runtime =
  py_repr :: "obj \<Rightarrow> string"
  py_eval_entity :: "string \<Rightarrow> exn + obj"
  py_eval :: "string \<Rightarrow> eval_outcome"
  py_str :: "pyval \<Rightarrow> string"
  get_changes :: "obj \<Rightarrow> (string \<times> pyval) list"
  imported_classes :: "string \<rightharpoonup> ((string \<rightharpoonup> pyval) \<Rightarrow> construction)"
  entity_init :: "(string \<rightharpoonup> pyval) \<Rightarrow> exn + obj"
  color_red :: pyval
  engine_red :: "pyval \<Rightarrow> exn + pyval"

definition lit_with_shadows_shader :: pyval where
  "lit_with_shadows_shader = PStr ''lit_with_shadows_shader''"

definition setattr :: "ref \<Rightarrow> string \<Rightarrow> pyval \<Rightarrow> 'a world_scheme \<Rightarrow> 'a world_scheme" where
  "setattr r k v w = w\<lparr>heap := (heap w)(r := (heap w r)\<lparr>attrs := (attrs (heap w r))(k \<mapsto> v)\<rparr>)\<rparr>"

definition getattr :: "'a world_scheme \<Rightarrow> ref \<Rightarrow> string \<Rightarrow> exn + pyval" where
  "getattr w r k = (case attrs (heap w r) k of None \<Rightarrow> Inl AttributeError | Some v \<Rightarrow> Inr v)"

definition destroy :: "ref \<Rightarrow> 'a world_scheme \<Rightarrow> 'a world_scheme" where
  "destroy r w = w\<lparr>heap := (heap w)(r := (heap w r)\<lparr>alive := False\<rparr>)\<rparr>"

text \<open>A newly constructed object gets the next unused reference.\<close>

definition alloc :: "obj \<Rightarrow> 'a world_scheme \<Rightarrow> ref \<times> 'a world_scheme" where
  "alloc ob w = (next_ref w, w\<lparr>heap := (heap w)(next_ref w := ob), next_ref := Suc (next_ref w)\<rparr>)"

subsection \<open>LevelEditor.render_selection\<close>

text \<open>
  Of \<^verbatim>\<open>render_selection\<close> only the part that changes the scene is kept:
  \<^verbatim>\<open>self.selection = [e for e in self.selection if e]\<close>.  The registry holds references,
  never \<^verbatim>\<open>None\<close>, so the removal of \<^verbatim>\<open>None\<close> entries has nothing to do; the rest
  draws the gizmo and the overlays.
\<close>

definition render_selection :: "'a world_scheme \<Rightarrow> 'a world_scheme" where
  "render_selection w = w\<lparr>selection := filter (\<lambda>e. alive (heap w e)) (selection w)\<rparr>"

subsection \<open>Undo.undo and Undo.redo\<close>

text \<open>
  One round of the loop that rebuilds entities from their recipes.  Its body is a
  \<^verbatim>\<open>try\<close> of its own: a failure leaves out this entity and the loop goes on.
\<close>

definition restore_one :: "runtime \<Rightarrow> 'a world_scheme \<Rightarrow> int \<times> string \<Rightarrow> 'a world_scheme" where
  "restore_one rt w p =
     (case py_eval_entity rt (snd p) of
        Inl e \<Rightarrow> w
      | Inr ob \<Rightarrow>
         (case alloc ob w of (clone, w1) \<Rightarrow>
            let w2 = setattr clone ''selectable'' (PBool True) w1
            in (case getattr w2 clone ''parent'' of
                  Inl e \<Rightarrow> w2
                | Inr par \<Rightarrow>
                    let w3 = setattr clone ''original_parent'' par w2;
                        w4 = setattr clone ''shader'' lit_with_shadows_shader w3
                    in w4\<lparr>entities := py_insert (entities w4) (fst p) clone\<rparr>)))"

definition restore_entities :: "runtime \<Rightarrow> int list \<Rightarrow> string list \<Rightarrow> 'a world_scheme \<Rightarrow> 'a world_scheme" where
  "restore_entities rt ids recipes w = foldl (restore_one rt) w (zip ids recipes)"

text \<open>
  Removing the entities at the recorded indices.  The list of targets is built first and
  raises on a bad index, before anything has been changed; a target is then taken out of
  the selection, out of the registry, and destroyed.
\<close>

definition remove_from_selection :: "'a world_scheme \<Rightarrow> ref \<Rightarrow> 'a world_scheme" where
  "remove_from_selection w e =
     (if e \<in> set (selection w) then w\<lparr>selection := remove1 e (selection w)\<rparr> else w)"

definition remove_and_destroy :: "'a world_scheme \<Rightarrow> ref \<Rightarrow> 'a world_scheme" where
  "remove_and_destroy w e =
     destroy e (if e \<in> set (entities w) then w\<lparr>entities := remove1 e (entities w)\<rparr> else w)"

definition delete_entities :: "int list \<Rightarrow> 'a world_scheme \<Rightarrow> exn + 'a world_scheme" where
  "delete_entities ids w =
     (case map_exn (py_getitem (entities w)) ids of
        Inl e \<Rightarrow> Inl e
      | Inr target_entities \<Rightarrow>
          Inr (foldl remove_and_destroy (foldl remove_from_selection w target_entities)
                 target_entities))"

text \<open>Setting one attribute of the entity at an index; a bad index skips the entry.\<close>

definition set_indexed :: "'a world_scheme \<Rightarrow> int \<Rightarrow> string \<Rightarrow> pyval \<Rightarrow> 'a world_scheme" where
  "set_indexed w i k v =
     (case py_getitem (entities w) i of Inl e \<Rightarrow> w | Inr r \<Rightarrow> setattr r k v w)"

definition revert_change :: "'a world_scheme \<Rightarrow> int \<times> string \<times> pyval \<times> pyval \<Rightarrow> 'a world_scheme" where
  "revert_change w c = (case c of (i, k, original, new) \<Rightarrow> set_indexed w i k original)"

definition reapply_change :: "'a world_scheme \<Rightarrow> int \<times> string \<times> pyval \<times> pyval \<Rightarrow> 'a world_scheme" where
  "reapply_change w c = (case c of (i, k, original, new) \<Rightarrow> set_indexed w i k new)"

text \<open>
  The body of the outer \<^verbatim>\<open>try\<close> of \<^verbatim>\<open>undo\<close>.  \<^verbatim>\<open>current_undo_data[0]\<close> raises on an
  empty list of changes; a non-empty list of changes is equal to neither tag.
\<close>

fun undo_body :: "runtime \<Rightarrow> undo_rec \<Rightarrow> 'a world_scheme \<Rightarrow> exn + 'a world_scheme" where
  "undo_body rt (RestoreEntities ids recipes) w = Inr (restore_entities rt ids recipes w)"
| "undo_body rt (DeleteEntities ids recipes) w = delete_entities ids w"
| "undo_body rt (Changes []) w = Inl IndexError"
| "undo_body rt (Changes cs) w = Inr (foldl revert_change w cs)"

fun redo_body :: "runtime \<Rightarrow> undo_rec \<Rightarrow> 'a world_scheme \<Rightarrow> exn + 'a world_scheme" where
  "redo_body rt (DeleteEntities ids recipes) w = Inr (restore_entities rt ids recipes w)"
| "redo_body rt (RestoreEntities ids recipes) w = delete_entities ids w"
| "redo_body rt (Changes []) w = Inl IndexError"
| "redo_body rt (Changes cs) w = Inr (foldl reapply_change w cs)"

text \<open>
  An exception of the body is caught and printed; in both places where the body can raise
  nothing has been changed yet, so the scene is the one before.  Reading the entry at the
  cursor is outside the \<^verbatim>\<open>try\<close>.
\<close>

definition swallow :: "'a \<Rightarrow> exn + 'a \<Rightarrow> 'a" where
  "swallow w r = (case r of Inl e \<Rightarrow> w | Inr w' \<Rightarrow> w')"

definition undo :: "runtime \<Rightarrow> 'a world_scheme \<Rightarrow> exn + 'a world_scheme" where
  "undo rt w =
     (if undo_index w < 0 then Inr w
      else case py_getitem (undo_data w) (undo_index w) of
             Inl e \<Rightarrow> Inl e
           | Inr current_undo_data \<Rightarrow>
               Inr ((render_selection (swallow w (undo_body rt current_undo_data w)))
                      \<lparr>undo_index := undo_index w - 1\<rparr>))"

definition redo :: "runtime \<Rightarrow> 'a world_scheme \<Rightarrow> exn + 'a world_scheme" where
  "redo rt w =
     (if undo_index w + 2 > int (length (undo_data w)) then Inr w
      else case py_getitem (undo_data w) (undo_index w + 1) of
             Inl e \<Rightarrow> Inl e
           | Inr current_undo_data \<Rightarrow>
               Inr ((render_selection (swallow w (redo_body rt current_undo_data w)))
                      \<lparr>undo_index := undo_index w + 1\<rparr>))"

subsection \<open>Deleter.delete_selected\<close>

text \<open>
  The arguments of \<^verbatim>\<open>record_undo\<close> are evaluated first; \<^verbatim>\<open>index\<close> raises for a
  selected entity that is not in the registry, and the handler around the whole body then
  leaves the scene as it was.
\<close>

definition remove_if_present :: "'a world_scheme \<Rightarrow> ref \<Rightarrow> 'a world_scheme" where
  "remove_if_present w e =
     (if e \<in> set (entities w) then w\<lparr>entities := remove1 e (entities w)\<rparr> else w)"

definition delete_selected :: "runtime \<Rightarrow> 'a world_scheme \<Rightarrow> 'a world_scheme" where
  "delete_selected rt w =
     (case map_exn (py_index (entities w)) (selection w) of
        Inl e \<Rightarrow> w
      | Inr ids \<Rightarrow>
          let w1 = record_undo (RestoreEntities ids (map (\<lambda>e. py_repr rt (heap w e)) (selection w))) w;
              w2 = foldl remove_if_present w1 (selection w1);
              w3 = foldl (\<lambda>u e. destroy e u) w2 (selection w2);
              w4 = w3\<lparr>selection := []\<rparr>
          in render_selection w4)"

section \<open>Manipulator release\<close>

text \<open>
  A world transform is the tuple (position, rotation, scale) of three vectors.  The
  assignment \<^verbatim>\<open>e.world_parent = p\<close> reparents \<open>e\<close> and keeps its world transform, so it
  writes the attribute \<open>parent\<close> only.  Numbers are reals.
\<close>

text \<open>Iterating a statement that may raise over a list; the exception ends the loop.\<close>

fun fold_exn :: "('s \<Rightarrow> 'a \<Rightarrow> exn + 's) \<Rightarrow> 's \<Rightarrow> 'a list \<Rightarrow> exn + 's" where
  "fold_exn f s [] = Inr s"
| "fold_exn f s (x # xs) = (case f s x of Inl e \<Rightarrow> Inl e | Inr s' \<Rightarrow> fold_exn f s' xs)"








subsection \<open>GizmoArrow.drop\<close>



subsection \<open>RotationGizmo.drop and ScaleGizmo.drop\<close>




subsection \<open>BoxGizmo.start_scaling\<close>

text \<open>\<^verbatim>\<open>int(x)\<close> of a float truncates towards zero.\<close>

definition py_int :: "real \<Rightarrow> int" where
  "py_int x = (if 0 \<le> x then \<lfloor>x\<rfloor> else \<lceil>x\<rceil>)"

text \<open>
  The edge-scale tool takes the hovered registry entity as its target and makes its own
  helper entity the selection.  \<open>hovered\<close> and \<open>normal\<close> are what the mouse reports,
  \<open>scaler\<close> and \<open>helper\<close> the two entities the tool owns.  Placing the scaler and the
  helper and starting the arrow drag afterwards touch those two entities and the gizmo
  only and are left out.
\<close>

definition start_scaling ::
  "ref \<Rightarrow> ref \<Rightarrow> ref option \<Rightarrow> (real \<times> real \<times> real) option \<Rightarrow> 'a world_scheme \<Rightarrow> exn + 'a world_scheme" where
  "start_scaling scaler helper hovered normal w =
     (let w1 = foldl (\<lambda>u e. setattr e ''collision'' (PBool True) u) w (entities w)
      in case (hovered, normal) of
           (Some target, Some (nx, ny, nz)) \<Rightarrow>
             if target \<in> set (entities w1) \<and> (nx, ny, nz) \<noteq> (0, 0, 0)
             then (case getattr w1 target ''world_transform'' of
                     Inl x \<Rightarrow> Inl x
                   | Inr t \<Rightarrow>
                      (case py_index (map (\<lambda>c. \<bar>py_int c\<bar>) [nx, ny, nz]) 1 of
                         Inl x \<Rightarrow> Inl x
                       | Inr axis \<Rightarrow>
                           let w2 = setattr target ''_original_world_transform'' t w1;
                               w3 = setattr target ''parent'' (PRef scaler) w2
                           in Inr (render_selection (w3\<lparr>selection := [helper]\<rparr>))))
             else Inr w1
         | _ \<Rightarrow> Inr w1)"

subsection \<open>GizmoArrow.drag\<close>




subsection \<open>RotationGizmo.drag and ScaleGizmo.drag\<close>




subsection \<open>What a release needs and what it leaves alone\<close>



text \<open>
  Between engage and release the pointer moves the manipulator, and with it the world
  transforms of the entities under it: \<open>dragged w w1\<close> holds when \<open>w1\<close> differs from
  \<open>w\<close> in values of \<open>world_transform\<close> at most.  The engage phase itself assigns the
  four attributes \<open>parent\<close>, \<open>original_parent\<close>, \<open>always_on_top\<close> and
  \<open>_original_world_transform\<close> and nothing else.
\<close>

definition dragged :: "'a world_scheme \<Rightarrow> 'a world_scheme \<Rightarrow> bool" where
  "dragged w w1 =
     (entities w1 = entities w \<and> selection w1 = selection w \<and> undo_data w1 = undo_data w
      \<and> undo_index w1 = undo_index w
      \<and> (\<forall>r. alive (heap w1 r) = alive (heap w r))
      \<and> (\<forall>r k. k \<noteq> ''world_transform'' \<longrightarrow> attrs (heap w1 r) k = attrs (heap w r) k)
      \<and> (\<forall>r. attrs (heap w r) ''world_transform'' \<noteq> None
               \<longrightarrow> attrs (heap w1 r) ''world_transform'' \<noteq> None))"


section \<open>Scene persistence\<close>

subsection \<open>ErrorEntity\<close>

text \<open>
  \<open>model\<close> and \<open>color\<close> are parameters with defaults, everything else goes to
  \<^verbatim>\<open>Entity.__init__\<close>.  A failure is caught and a cube is tried, in the colour
  \<^verbatim>\<open>color.red\<close>, where \<open>color\<close> is the parameter, not the module: a text, a number,
  a tuple or \<^verbatim>\<open>None\<close> has no such attribute, and the second attempt then ends before
  the initialiser is called.  When both attempts fail the instance stays as it was
  allocated, without attributes.
\<close>

definition red_of :: "runtime \<Rightarrow> pyval \<Rightarrow> exn + pyval" where
  "red_of rt c =
     (case c of
        PVec3 x y z \<Rightarrow> engine_red rt c
      | PRef r \<Rightarrow> engine_red rt c
      | _ \<Rightarrow> Inl AttributeError)"

definition error_entity :: "runtime \<Rightarrow> (string \<rightharpoonup> pyval) \<Rightarrow> obj" where
  "error_entity rt kwargs =
     (let model = (case kwargs ''model'' of None \<Rightarrow> PStr ''wireframe_cube'' | Some m \<Rightarrow> m);
          color = (case kwargs ''color'' of None \<Rightarrow> color_red rt | Some c \<Rightarrow> c);
          bare = \<lparr>cls = ''ErrorEntity'', attrs = Map.empty, alive = False\<rparr>
      in case entity_init rt (kwargs(''model'' \<mapsto> model, ''color'' \<mapsto> color)) of
           Inr ob \<Rightarrow> ob\<lparr>cls := ''ErrorEntity''\<rparr>
         | Inl e \<Rightarrow>
            (case red_of rt color of
               Inl e' \<Rightarrow> bare
             | Inr red \<Rightarrow>
                (case entity_init rt (kwargs(''model'' \<mapsto> PStr ''cube'', ''color'' \<mapsto> red)) of
                   Inr ob \<Rightarrow> ob\<lparr>cls := ''ErrorEntity''\<rparr>
                 | Inl e' \<Rightarrow> bare)))"

subsection \<open>LevelEditorScene.save\<close>

text \<open>
  \<^verbatim>\<open>save\<close> is only called as \<^verbatim>\<open>self.current_scene.save()\<close>, so the scene whose
  entities and name it writes is the scene itself.  The dictionary of one entity:
  its changes with \<^verbatim>\<open>None\<close> replaced by \<^verbatim>\<open>False\<close>, the class name, and the collider
  type in quotes.
\<close>

definition str_of :: "runtime \<Rightarrow> pyval \<Rightarrow> string" where
  "str_of rt v = (case v of PStr s \<Rightarrow> s | _ \<Rightarrow> py_str rt v)"

definition entity_row :: "runtime \<Rightarrow> 'a world_scheme \<Rightarrow> ref \<Rightarrow> (string \<times> pyval) list" where
  "entity_row rt w e =
     (let changes = map (\<lambda>(k, v). (k, if v = PNone then PBool False else v)) (get_changes rt (heap w e));
          changes1 = AList.update ''class'' (PStr (cls (heap w e))) changes
      in case attrs (heap w e) ''collider_type'' of
           None \<Rightarrow> changes1
         | Some ct \<Rightarrow>
             AList.update ''collider_type'' (PStr ([CHR 0x27] @ str_of rt ct @ [CHR 0x27])) changes1)"

definition add_fields :: "string list \<Rightarrow> (string \<times> pyval) list \<Rightarrow> string list" where
  "add_fields fnames changes =
     foldl (\<lambda>fs k. if k \<in> set fs then fs else fs @ [k]) fnames (map fst changes)"

text \<open>
  The line \<^verbatim>\<open>csv.DictWriter\<close> writes for a dictionary, as the reader gives it back: a
  text for every field of the header, empty where the dictionary has no value.
\<close>

definition written_line :: "runtime \<Rightarrow> string list \<Rightarrow> (string \<times> pyval) list \<Rightarrow> csv_line" where
  "written_line rt fnames changes =
     Line (map (\<lambda>k. (k, case map_of changes k of
                           None \<Rightarrow> []
                         | Some PNone \<Rightarrow> []
                         | Some v \<Rightarrow> str_of rt v)) fnames) []"

definition scene_file :: "string \<Rightarrow> string" where
  "scene_file n = ''scenes/'' @ n @ ''.csv''"

definition save :: "runtime \<Rightarrow> bool \<Rightarrow> bool \<Rightarrow> 'a world_scheme \<Rightarrow> 'a world_scheme" where
  "save rt can_mkdir can_write w =
     (if path w = None \<and> entities w = [] then w
      else if \<not> can_mkdir then w
      else
        let list_of_dicts =
              map (entity_row rt w)
                (filter (\<lambda>e. attrs (heap w e) ''is_gizmo'' = None) (entities w));
            fnames = foldl add_fields [''class''] list_of_dicts;
            w1 = w\<lparr>path := Some (scene_file (name w))\<rparr>
        in if can_write
           then w1\<lparr>files := (files w1)(scene_file (name w) \<mapsto>
                          Csv (Some fnames)
                            (map (\<lambda>d. Inr (written_line rt fnames d)) list_of_dicts))\<rparr>
           else w1)"

subsection \<open>LevelEditorScene.load\<close>

text \<open>
  One round of the loop over \<^verbatim>\<open>kwargs.items()\<close>.  The parent is skipped.  An
  Exception of \<^verbatim>\<open>eval\<close> is caught and the text stays; a value that is no text makes
  \<^verbatim>\<open>eval\<close> raise TypeError, which is caught as well.  Where the expression changed the
  number of keys, the \<^verbatim>\<open>for\<close> statement raises RuntimeError at its next step, outside
  the handler of the field.
\<close>

definition eval_field :: "runtime \<Rightarrow> string \<times> pyval \<Rightarrow> exn + string \<times> pyval" where
  "eval_field rt item =
     (case item of (key, value) \<Rightarrow>
        if key = ''parent'' then Inr (key, value)
        else case value of
               PStr text \<Rightarrow>
                 (case py_eval rt text of
                    Value v \<Rightarrow> Inr (key, v)
                  | Raises e \<Rightarrow> Inr (key, value)
                  | Disturbs \<Rightarrow> Inl RuntimeError)
             | _ \<Rightarrow> Inr (key, value))"

definition is_text :: "pyval \<Rightarrow> bool" where
  "is_text v = (case v of PStr s \<Rightarrow> True | _ \<Rightarrow> False)"

text \<open>
  The keyword arguments of one line, as the items of the dictionary: the non-empty cells
  other than the class, the scene parent unless the line names a parent, every value but
  the parent evaluated where that succeeds, and a parent that is still a text replaced by
  the scene parent.  The list under the key \<^verbatim>\<open>None\<close> of a line with surplus cells stays
  in the dictionary as it is and is accounted for where the class is called.
\<close>

definition row_kwargs :: "runtime \<Rightarrow> ref \<Rightarrow> csv_line \<Rightarrow> exn + (string \<times> pyval) list" where
  "row_kwargs rt sp line =
     (let kwargs0 = map (\<lambda>(k, v). (k, PStr v))
                      (filter (\<lambda>(k, v). v \<noteq> [] \<and> k \<noteq> ''class'') (cells line));
          kwargs1 = (if ''parent'' \<in> set (map fst kwargs0) then kwargs0
                     else kwargs0 @ [(''parent'', PRef sp)])
      in case map_exn (eval_field rt) kwargs1 of
           Inl e \<Rightarrow> Inl e
         | Inr kwargs2 \<Rightarrow>
             Inr (map (\<lambda>(k, v). if k = ''parent'' \<and> is_text v then (k, PRef sp) else (k, v))
                    kwargs2))"

text \<open>
  Appending a new object to the registry, and calling a class: the object is allocated and
  its initialiser makes its own registrations.  These go to \<^verbatim>\<open>LEVEL_EDITOR.entities\<close>,
  the registry of the current scene, which is the scene that is loaded when
  \<^verbatim>\<open>goto_scene\<close> calls \<^verbatim>\<open>load\<close>.
\<close>

definition append_new :: "obj \<Rightarrow> 'a world_scheme \<Rightarrow> 'a world_scheme" where
  "append_new ob w = (case alloc ob w of (r, w1) \<Rightarrow> w1\<lparr>entities := entities w1 @ [r]\<rparr>)"

definition register :: "ref \<Rightarrow> 'a world_scheme \<Rightarrow> registration \<Rightarrow> 'a world_scheme" where
  "register self w g =
     (case g of
        Itself \<Rightarrow> w\<lparr>entities := entities w @ [self]\<rparr>
      | Another ob \<Rightarrow> append_new ob w)"

definition call_class :: "construction \<Rightarrow> 'a world_scheme \<Rightarrow> ref \<times> 'a world_scheme" where
  "call_class c w =
     (case alloc (built c) w of (self, w1) \<Rightarrow> (self, foldl (register self) w1 (registered c)))"

text \<open>
  One round of the loop over the lines.  \<^verbatim>\<open>line["class"]\<close> raises where the header has
  no such column.  A class that is not imported gives an ErrorEntity with the line's
  arguments; a class whose call raises gives an ErrorEntity without arguments, and so does
  every line with surplus cells, whose key \<^verbatim>\<open>None\<close> no call accepts (TypeError).  The
  instance is appended to the registry, after whatever the call itself has registered.
\<close>

definition load_row :: "runtime \<Rightarrow> ref \<Rightarrow> csv_line \<Rightarrow> 'a world_scheme \<Rightarrow> exn + 'a world_scheme" where
  "load_row rt sp line w =
     (case row_kwargs rt sp line of
        Inl e \<Rightarrow> Inl e
      | Inr kwargs \<Rightarrow>
         (case map_of (cells line) ''class'' of
            None \<Rightarrow> Inl KeyError
          | Some class_name \<Rightarrow>
              if surplus line \<noteq> [] then Inr (append_new (error_entity rt Map.empty) w)
              else (case imported_classes rt class_name of
                      None \<Rightarrow> Inr (append_new (error_entity rt (map_of kwargs)) w)
                    | Some target_class \<Rightarrow>
                        (case call_class (target_class (map_of kwargs)) w of
                           (self, w1) \<Rightarrow>
                             if raised (target_class (map_of kwargs)) = None
                             then Inr (w1\<lparr>entities := entities w1 @ [self]\<rparr>)
                             else Inr (append_new (error_entity rt Map.empty) w1)))))"

text \<open>
  The loop over the lines and the loop of the adjustments after it.  Both stop at an
  exception, which the handler around the whole of \<^verbatim>\<open>load\<close> prints; what has been done
  up to there stays.
\<close>

fun load_rows ::
  "runtime \<Rightarrow> ref \<Rightarrow> (exn + csv_line) list \<Rightarrow> 'a world_scheme \<Rightarrow> exn option \<times> 'a world_scheme" where
  "load_rows rt sp [] w = (None, w)"
| "load_rows rt sp (l # rest) w =
     (case l of
        Inl e \<Rightarrow> (Some e, w)
      | Inr line \<Rightarrow>
          (case load_row rt sp line w of
             Inl e \<Rightarrow> (Some e, w)
           | Inr w1 \<Rightarrow> load_rows rt sp rest w1))"

definition post_load_one :: "'a world_scheme \<Rightarrow> ref \<Rightarrow> exn option \<times> 'a world_scheme" where
  "post_load_one w e =
     (let w1 = (if \<not> truthy (case attrs (heap w e) ''shader'' of None \<Rightarrow> PNone | Some v \<Rightarrow> v)
                then setattr e ''shader'' lit_with_shadows_shader w else w);
          w2 = setattr e ''selectable'' (PBool True) w1
      in case getattr w2 e ''parent'' of
           Inl x \<Rightarrow> (Some x, w2)
         | Inr par \<Rightarrow>
             let w3 = setattr e ''original_parent'' par w2;
                 w4 = (if attrs (heap w3 e) ''collider_type'' = None
                       then setattr e ''collider_type'' PNone w3 else w3)
             in (case getattr w4 e ''model'' of
                   Inl x \<Rightarrow> (Some x, w4)
                 | Inr (PStr m) \<Rightarrow>
                     if m = ''cube''
                     then (None, setattr e ''collision'' (PBool False)
                                   (setattr e ''collider'' (PStr ''box'') w4))
                     else (None, w4)
                 | Inr v \<Rightarrow> if truthy v then (Some AttributeError, w4) else (None, w4)))"

fun post_load :: "'a world_scheme \<Rightarrow> ref list \<Rightarrow> exn option \<times> 'a world_scheme" where
  "post_load w [] = (None, w)"
| "post_load w (e # es) =
     (case post_load_one w e of
        (Some x, w1) \<Rightarrow> (Some x, w1)
      | (None, w1) \<Rightarrow> post_load w1 es)"

definition is_loaded :: "'a world_scheme \<Rightarrow> bool" where
  "is_loaded w = (case scene_parent w of None \<Rightarrow> False | Some sp \<Rightarrow> alive (heap w sp))"

text \<open>The result is the scene parent, or \<^verbatim>\<open>None\<close> where nothing was loaded or it failed.\<close>

definition load :: "runtime \<Rightarrow> 'a world_scheme \<Rightarrow> ref option \<times> 'a world_scheme" where
  "load rt w =
     (case path w of
        None \<Rightarrow> (None, w)
      | Some p \<Rightarrow>
          if is_loaded w then (None, w)
          else (case files w p of
                  None \<Rightarrow> (None, w)
                | Some f \<Rightarrow>
                   (case entity_init rt Map.empty of
                      Inl x \<Rightarrow> (None, w)
                    | Inr new_parent \<Rightarrow>
                       (case alloc new_parent w of
                          (sp, w0) \<Rightarrow>
                            let w1 = w0\<lparr>scene_parent := Some sp\<rparr>
                            in (case fieldnames f of
                                  None \<Rightarrow> (None, w1)
                                | Some fnames \<Rightarrow>
                                   (case load_rows rt sp (lines f) w1 of
                                      (Some x, w2) \<Rightarrow> (None, w2)
                                    | (None, w2) \<Rightarrow>
                                       (case post_load w2 (entities w2) of
                                          (Some x, w3) \<Rightarrow> (None, w3)
                                        | (None, w3) \<Rightarrow>
                                            if is_loaded w3 then (scene_parent w3, w3)
                                            else (None, w3))))))))"

subsection \<open>LevelEditorScene.unload\<close>

definition unload :: "'a world_scheme \<Rightarrow> 'a world_scheme" where
  "unload w =
     (let w1 = foldl (\<lambda>u e. destroy e u) w (entities w);
          w2 = w1\<lparr>selection := [], entities := []\<rparr>
      in case scene_parent w2 of
           None \<Rightarrow> w2
         | Some sp \<Rightarrow> if alive (heap w2 sp) then destroy sp w2 else w2)"

subsection \<open>Changes of attributes only\<close>

text \<open>
  The adjustments after loading assign attributes of entities and touch nothing else of
  the scene.
\<close>

definition attrs_only :: "'a world_scheme \<Rightarrow> 'a world_scheme \<Rightarrow> bool" where
  "attrs_only w w1 =
     (w1 = w\<lparr>heap := heap w1\<rparr>
      \<and> (\<forall>r. cls (heap w1 r) = cls (heap w r) \<and> alive (heap w1 r) = alive (heap w r)))"

subsection \<open>What a line contributes to the registry\<close>





section \<open>The grid of scenes\<close>

text \<open>
  The editor proper: the grid built by \<^verbatim>\<open>LevelEditor.__init__\<close>, the current scene (a
  reference to one cell of the grid, kept as its position), the object store and the disk.
\<close>

record editor =
  scenes :: "scene list list"
  current_scene :: "(nat \<times> nat) option"
  store :: "ref \<Rightarrow> obj"
  store_next :: ref
  disk :: "string \<rightharpoonup> csv_file"

definition new_scene :: "int \<Rightarrow> int \<Rightarrow> string \<Rightarrow> scene" where
  "new_scene x y n =
     \<lparr>coordinates = (x, y), name = n, path = None, entities = [], selection = [],
      scene_parent = None, undo_data = [], undo_index = - 1\<rparr>"

definition digit :: "nat \<Rightarrow> string" where
  "digit n = [char_of (48 + n)]"

definition initial_scenes :: "scene list list" where
  "initial_scenes =
     map (\<lambda>x. map (\<lambda>y. new_scene (int x) (int y)
                        (''untitled_scene['' @ digit x @ '','' @ digit y @ '']'')) [0..<8]) [0..<8]"

text \<open>Running a method of one cell: the cell with the store, and back.\<close>

definition enter :: "editor \<Rightarrow> scene \<Rightarrow> world" where
  "enter ed s =
     \<lparr>coordinates = coordinates s, name = name s, path = path s, entities = entities s,
      selection = selection s, scene_parent = scene_parent s, undo_data = undo_data s,
      undo_index = undo_index s, heap = store ed, next_ref = store_next ed, files = disk ed\<rparr>"

definition cell_of :: "world \<Rightarrow> scene" where
  "cell_of w =
     \<lparr>coordinates = coordinates w, name = name w, path = path w, entities = entities w,
      selection = selection w, scene_parent = scene_parent w, undo_data = undo_data w,
      undo_index = undo_index w\<rparr>"

definition leave :: "nat \<Rightarrow> nat \<Rightarrow> world \<Rightarrow> editor \<Rightarrow> editor" where
  "leave i j w ed =
     ed\<lparr>scenes := (scenes ed)[i := (scenes ed ! i)[j := cell_of w]],
        store := heap w, store_next := next_ref w, disk := files w\<rparr>"

text \<open>The position an index denotes in a list of the given length.\<close>

definition py_norm :: "nat \<Rightarrow> int \<Rightarrow> exn + nat" where
  "py_norm n i =
     (if 0 \<le> i \<and> i < int n then Inr (nat i)
      else if i < 0 \<and> - int n \<le> i then Inr (nat (int n + i))
      else Inl IndexError)"

definition unload_at :: "editor \<Rightarrow> int \<times> int \<Rightarrow> exn + editor" where
  "unload_at ed p =
     (case py_norm (length (scenes ed)) (fst p) of
        Inl e \<Rightarrow> Inl e
      | Inr i \<Rightarrow>
         (case py_norm (length (scenes ed ! i)) (snd p) of
            Inl e \<Rightarrow> Inl e
          | Inr j \<Rightarrow> Inr (leave i j (unload (enter ed (scenes ed ! i ! j))) ed)))"

text \<open>
  \<^verbatim>\<open>[[scenes[_x][_y].unload() for _x in range(8)] for _y in range(8)]\<close>: the outer
  loop runs over \<open>_y\<close>.
\<close>

definition all_cells :: "(int \<times> int) list" where
  "all_cells = concat (map (\<lambda>y. map (\<lambda>x. (int x, int y)) [0..<8]) [0..<8])"

subsection \<open>LevelMenu.goto_scene\<close>

definition goto_scene :: "runtime \<Rightarrow> int \<Rightarrow> int \<Rightarrow> editor \<Rightarrow> exn + editor" where
  "goto_scene rt x y ed =
     (case fold_exn unload_at ed all_cells of
        Inl e \<Rightarrow> Inl e
      | Inr ed1 \<Rightarrow>
         (case py_norm (length (scenes ed1)) x of
            Inl e \<Rightarrow> Inl e
          | Inr i \<Rightarrow>
             (case py_norm (length (scenes ed1 ! i)) y of
                Inl e \<Rightarrow> Inl e
              | Inr j \<Rightarrow>
                  let ed2 = ed1\<lparr>current_scene := Some (i, j)\<rparr>
                  in (case load rt (enter ed2 (scenes ed2 ! i ! j)) of
                        (Some sp, w) \<Rightarrow> Inr (leave i j (render_selection w) ed2)
                      | (None, w) \<Rightarrow>
                         (case entity_init rt Map.empty of
                            Inl e \<Rightarrow> Inl e
                          | Inr ob \<Rightarrow>
                             (case alloc ob w of
                                (r, w1) \<Rightarrow>
                                  Inr (leave i j (render_selection (w1\<lparr>scene_parent := Some r\<rparr>)) ed2)))))))"

subsection \<open>LevelMenu.input: the hotkeys for the adjacent scenes\<close>

text \<open>The engine's \<^verbatim>\<open>clamp(value, floor, ceiling)\<close>.\<close>

definition clamp :: "int \<Rightarrow> int \<Rightarrow> int \<Rightarrow> int" where
  "clamp v lo hi = max (min v hi) lo"

text \<open>\<^verbatim>\<open>key in 'wasd'\<close> on strings is the substring test.\<close>

definition py_in_str :: "string \<Rightarrow> string \<Rightarrow> bool" where
  "py_in_str a b = list_ex (\<lambda>i. take (length a) (drop i b) = a) [0..<Suc (length b)]"

definition adjacent :: "string \<Rightarrow> int \<times> int \<Rightarrow> int \<times> int" where
  "adjacent key coords =
     (let c0 = fst coords; c1 = snd coords;
          c0 = (if key = ''d'' then c0 + 1 else c0);
          c0 = (if key = ''a'' then c0 - 1 else c0);
          c1 = (if key = ''w'' then c1 + 1 else c1);
          c1 = (if key = ''s'' then c1 - 1 else c1)
      in (clamp c0 0 8, clamp c1 0 8))"

text \<open>
  The last block of \<^verbatim>\<open>LevelMenu.input\<close>, which is all that \<^verbatim>\<open>input\<close> does for a key
  that is neither a mouse click nor the menu toggle.
\<close>

definition level_menu_input :: "runtime \<Rightarrow> bool \<Rightarrow> bool \<Rightarrow> string \<Rightarrow> editor \<Rightarrow> exn + editor" where
  "level_menu_input rt held_shift held_alt key ed =
     (if held_shift \<and> held_alt \<and> py_in_str key ''wasd''
      then (case current_scene ed of
              None \<Rightarrow> Inr ed
            | Some (i, j) \<Rightarrow>
                let coords = adjacent key (coordinates (scenes ed ! i ! j))
                in goto_scene rt (fst coords) (snd coords) ed)
      else Inr ed)"

section \<open>Concrete scenes\<close>

text \<open>
  A log of two entries whose second entry has been undone: a deletion of the entity at
  index 0, then a change of one attribute.
\<close>

definition two_entry_log :: scene where
  "two_entry_log =
     (new_scene 0 0 ''demo'')
       \<lparr>undo_data := [RestoreEntities [0] [''A''], Changes [(0, ''x'', PInt 1, PInt 2)]],
        undo_index := 0\<rparr>"

text \<open>
  A small runtime: the recipe of an entity is its class name, and evaluating a recipe
  gives a live entity of that class without a parent.  The text \<open>False\<close> evaluates,
  the text \<open>kwargs.clear()\<close> empties the dictionary, any other text raises.  The
  initialiser of an entity keeps its arguments and has no model unless it is given one.
  Three classes are imported: \<open>Entity\<close>; \<open>Tree\<close>, which registers its top, a cube, on
  its own; and \<open>LevelEditorScene\<close>, whose instances are no entities and have neither a
  parent nor a model.  The changes of an entity are its texture, if it has one, and a
  colour of the engine has no attribute \<open>red\<close>.
\<close>

definition plain :: "string \<Rightarrow> obj" where
  "plain c = \<lparr>cls = c, attrs = [''parent'' \<mapsto> PNone], alive = True\<rparr>"

definition toy_entity :: "string \<Rightarrow> (string \<rightharpoonup> pyval) \<Rightarrow> obj" where
  "toy_entity c kw = \<lparr>cls = c, attrs = [''model'' \<mapsto> PNone] ++ kw, alive = True\<rparr>"

definition tree_top :: obj where
  "tree_top =
     toy_entity ''Entity''
       [''name'' \<mapsto> PStr ''tree_top'', ''parent'' \<mapsto> PNone, ''model'' \<mapsto> PStr ''cube'',
        ''selectable'' \<mapsto> PBool True]"

definition toy_rt :: runtime where
  "toy_rt =
     \<lparr>py_repr = cls,
      py_eval_entity = (\<lambda>s. Inr (plain s)),
      py_eval = (\<lambda>s. if s = ''False'' then Value (PBool False)
                      else if s = ''kwargs.clear()'' then Disturbs
                      else Raises ValueError),
      py_str = (\<lambda>v. if v = PBool False then ''False'' else ''?''),
      get_changes = (\<lambda>ob. case attrs ob ''texture'' of None \<Rightarrow> [] | Some v \<Rightarrow> [(''texture'', v)]),
      imported_classes =
        [''Entity'' \<mapsto> (\<lambda>kw. \<lparr>built = toy_entity ''Entity'' kw, raised = None, registered = []\<rparr>),
         ''Tree'' \<mapsto> (\<lambda>kw. \<lparr>built = toy_entity ''Tree'' (kw(''model'' \<mapsto> PStr ''cube'')),
                              raised = None, registered = [Another tree_top]\<rparr>),
         ''LevelEditorScene'' \<mapsto>
           (\<lambda>kw. if kw ''x'' = None \<or> kw ''y'' = None \<or> kw ''name'' = None
                  then \<lparr>built = \<lparr>cls = ''LevelEditorScene'', attrs = Map.empty, alive = True\<rparr>,
                        raised = Some TypeError, registered = []\<rparr>
                  else \<lparr>built = \<lparr>cls = ''LevelEditorScene'',
                                 attrs = [''name'' \<mapsto> the (kw ''name'')], alive = True\<rparr>,
                        raised = None, registered = []\<rparr>)],
      entity_init = (\<lambda>kw. Inr (toy_entity ''Entity'' kw)),
      color_red = PVec3 1 0 0,
      engine_red = (\<lambda>v. Inl AttributeError)\<rparr>"

text \<open>The scene \<open>[A, B, C]\<close> with the references 0, 1 and 2.\<close>

definition abc_world :: world where
  "abc_world =
     \<lparr>coordinates = (0, 0), name = ''demo'', path = None, entities = [0, 1, 2], selection = [],
      scene_parent = None, undo_data = [], undo_index = - 1,
      heap = (\<lambda>r. if r = 0 then plain ''A'' else if r = 1 then plain ''B'' else plain ''C''),
      next_ref = 3, files = Map.empty\<rparr>"

text \<open>
  A log whose first entry is an empty list of changes, as the rotation tool records it
  when it is released with nothing selected.
\<close>

definition empty_changes_world :: world where
  "empty_changes_world = abc_world\<lparr>undo_data := [Changes [], Changes []], undo_index := 0\<rparr>"

text \<open>
  The editor as \<^verbatim>\<open>LevelEditor.__init__\<close> builds its grid, with the scene in the last
  column as the current one.
\<close>

definition corner_editor :: editor where
  "corner_editor =
     \<lparr>scenes = initial_scenes, current_scene = Some (7, 0), store = (\<lambda>r. plain ''gizmo''),
      store_next = 0, disk = Map.empty\<rparr>"

text \<open>
  Entities that carry a transform and the snapshot of it taken when a drag began, and the
  scene \<open>[A, B, C]\<close> after the entity at index 1 was created (and is still selected).
\<close>

definition unit_transform :: pyval where
  "unit_transform = PTuple [PVec3 0 0 0, PVec3 0 0 0, PVec3 1 1 1]"

definition placed :: "string \<Rightarrow> obj" where
  "placed c =
     \<lparr>cls = c,
      attrs = [''parent'' \<mapsto> PNone, ''original_parent'' \<mapsto> PNone,
               ''world_transform'' \<mapsto> unit_transform,
               ''_original_world_transform'' \<mapsto> unit_transform],
      alive = True\<rparr>"

definition placed_world :: world where
  "placed_world = abc_world\<lparr>heap := (\<lambda>r. placed ''cube''), selection := [0]\<rparr>"

definition created_b_world :: world where
  "created_b_world =
     abc_world\<lparr>selection := [1], undo_data := [DeleteEntities [1] [''B'']], undo_index := 0\<rparr>"










section \<open>Properties\<close>

lemma py_slice_to_nonneg: "0 \<le> k \<Longrightarrow> py_slice_to xs k = take (nat k) xs"
  by (simp add: py_slice_to_def)

subsection \<open>What the primitives leave alone\<close>

lemma setattr_fields [simp]:
  "entities (setattr r k v w) = entities w"
  "selection (setattr r k v w) = selection w"
  "undo_data (setattr r k v w) = undo_data w"
  "undo_index (setattr r k v w) = undo_index w"
  "scene_parent (setattr r k v w) = scene_parent w"
  "path (setattr r k v w) = path w"
  "name (setattr r k v w) = name w"
  "next_ref (setattr r k v w) = next_ref w"
  "files (setattr r k v w) = files w"
  by (simp_all add: setattr_def)

lemma destroy_fields [simp]:
  "entities (destroy r w) = entities w"
  "selection (destroy r w) = selection w"
  "undo_data (destroy r w) = undo_data w"
  "undo_index (destroy r w) = undo_index w"
  "scene_parent (destroy r w) = scene_parent w"
  "path (destroy r w) = path w"
  "name (destroy r w) = name w"
  "next_ref (destroy r w) = next_ref w"
  "files (destroy r w) = files w"
  by (simp_all add: destroy_def)

lemma render_selection_fields [simp]:
  "entities (render_selection w) = entities w"
  "undo_data (render_selection w) = undo_data w"
  "undo_index (render_selection w) = undo_index w"
  "scene_parent (render_selection w) = scene_parent w"
  "path (render_selection w) = path w"
  "name (render_selection w) = name w"
  "heap (render_selection w) = heap w"
  "next_ref (render_selection w) = next_ref w"
  "files (render_selection w) = files w"
  "selection (render_selection w) = filter (\<lambda>e. alive (heap w e)) (selection w)"
  by (simp_all add: render_selection_def)

lemma restore_one_log [simp]:
  "undo_data (restore_one rt w p) = undo_data w"
  "undo_index (restore_one rt w p) = undo_index w"
  "selection (restore_one rt w p) = selection w"
  by (simp_all add: restore_one_def alloc_def getattr_def Let_def split: sum.splits option.splits)

lemma restore_entities_log [simp]:
  "undo_data (restore_entities rt ids rs w) = undo_data w"
  "undo_index (restore_entities rt ids rs w) = undo_index w"
  "selection (restore_entities rt ids rs w) = selection w"
proof -
  have "undo_data (foldl (restore_one rt) w ps) = undo_data w
      \<and> undo_index (foldl (restore_one rt) w ps) = undo_index w
      \<and> selection (foldl (restore_one rt) w ps) = selection w" for ps
    by (induction ps arbitrary: w) simp_all
  then show "undo_data (restore_entities rt ids rs w) = undo_data w"
    "undo_index (restore_entities rt ids rs w) = undo_index w"
    "selection (restore_entities rt ids rs w) = selection w"
    by (simp_all add: restore_entities_def)
qed

lemma remove_from_selection_fields [simp]:
  "undo_data (remove_from_selection w e) = undo_data w"
  "undo_index (remove_from_selection w e) = undo_index w"
  "entities (remove_from_selection w e) = entities w"
  "heap (remove_from_selection w e) = heap w"
  by (simp_all add: remove_from_selection_def)

lemma remove_and_destroy_fields [simp]:
  "undo_data (remove_and_destroy w e) = undo_data w"
  "undo_index (remove_and_destroy w e) = undo_index w"
  "selection (remove_and_destroy w e) = selection w"
  by (simp_all add: remove_and_destroy_def)

lemma foldl_remove_from_selection_log [simp]:
  "undo_data (foldl remove_from_selection w es) = undo_data w"
  "undo_index (foldl remove_from_selection w es) = undo_index w"
  "entities (foldl remove_from_selection w es) = entities w"
  "heap (foldl remove_from_selection w es) = heap w"
  by (induction es arbitrary: w) simp_all

lemma foldl_remove_and_destroy_log [simp]:
  "undo_data (foldl remove_and_destroy w es) = undo_data w"
  "undo_index (foldl remove_and_destroy w es) = undo_index w"
  "selection (foldl remove_and_destroy w es) = selection w"
  by (induction es arbitrary: w) simp_all

lemma delete_entities_log:
  "delete_entities ids w = Inr w' \<Longrightarrow> undo_data w' = undo_data w \<and> undo_index w' = undo_index w"
  by (auto simp: delete_entities_def split: sum.splits)

lemma set_indexed_fields [simp]:
  "undo_data (set_indexed w i k v) = undo_data w"
  "undo_index (set_indexed w i k v) = undo_index w"
  "entities (set_indexed w i k v) = entities w"
  "selection (set_indexed w i k v) = selection w"
  by (simp_all add: set_indexed_def split: sum.splits)

lemma revert_change_fields [simp]:
  "undo_data (revert_change w c) = undo_data w"
  "undo_index (revert_change w c) = undo_index w"
  "entities (revert_change w c) = entities w"
  "selection (revert_change w c) = selection w"
  by (simp_all add: revert_change_def split: prod.splits)

lemma reapply_change_fields [simp]:
  "undo_data (reapply_change w c) = undo_data w"
  "undo_index (reapply_change w c) = undo_index w"
  "entities (reapply_change w c) = entities w"
  "selection (reapply_change w c) = selection w"
  by (simp_all add: reapply_change_def split: prod.splits)

lemma foldl_revert_fields [simp]:
  "undo_data (foldl revert_change w cs) = undo_data w"
  "undo_index (foldl revert_change w cs) = undo_index w"
  "entities (foldl revert_change w cs) = entities w"
  "selection (foldl revert_change w cs) = selection w"
  by (induction cs arbitrary: w) simp_all

lemma foldl_reapply_fields [simp]:
  "undo_data (foldl reapply_change w cs) = undo_data w"
  "undo_index (foldl reapply_change w cs) = undo_index w"
  "entities (foldl reapply_change w cs) = entities w"
  "selection (foldl reapply_change w cs) = selection w"
  by (induction cs arbitrary: w) simp_all

lemma undo_body_log:
  "undo_body rt cur w = Inr w' \<Longrightarrow> undo_data w' = undo_data w \<and> undo_index w' = undo_index w"
  by (cases "(rt, cur, w)" rule: undo_body.cases) (auto dest: delete_entities_log)

lemma redo_body_log:
  "redo_body rt cur w = Inr w' \<Longrightarrow> undo_data w' = undo_data w \<and> undo_index w' = undo_index w"
  by (cases "(rt, cur, w)" rule: redo_body.cases) (auto dest: delete_entities_log)

lemma swallow_undo_log:
  "undo_data (swallow w (undo_body rt cur w)) = undo_data w"
  by (cases "undo_body rt cur w") (auto simp: swallow_def dest: undo_body_log)

lemma swallow_redo_log:
  "undo_data (swallow w (redo_body rt cur w)) = undo_data w"
  by (cases "redo_body rt cur w") (auto simp: swallow_def dest: redo_body_log)

lemma py_getitem_in_range:
  "0 \<le> i \<Longrightarrow> i < int (length xs) \<Longrightarrow> py_getitem xs i = Inr (xs ! nat i)"
  by (simp add: py_getitem_def)

subsection \<open>The undo log\<close>

text \<open>
  C4.  Recording an entry on a log whose cursor is \<open>-1\<close> or points at an entry keeps
  exactly the entries up to and including the cursor, appends the new record and advances
  the cursor by one: the entries after the cursor (undone, not redone) are gone and the
  cursor points at the new record, which is the last one.
\<close>

theorem record_undo_truncates_appends_advances:
  assumes "log_ok s"
  shows "undo_data (record_undo d s) = take (nat (undo_index s + 1)) (undo_data s) @ [d]
       \<and> undo_index (record_undo d s) = undo_index s + 1
       \<and> length (undo_data (record_undo d s)) = nat (undo_index s + 2)
       \<and> py_getitem (undo_data (record_undo d s)) (undo_index (record_undo d s)) = Inr d
       \<and> log_ok (record_undo d s)"
proof -
  from assms have b: "0 \<le> undo_index s + 1" "nat (undo_index s + 1) \<le> length (undo_data s)"
    by (auto simp: log_ok_def)
  have d: "undo_data (record_undo d s) = take (nat (undo_index s + 1)) (undo_data s) @ [d]"
    using b by (simp add: record_undo_def py_slice_to_nonneg)
  have i: "undo_index (record_undo d s) = undo_index s + 1"
    by (simp add: record_undo_def)
  have l: "length (undo_data (record_undo d s)) = nat (undo_index s + 2)"
    using b by (simp add: d min_def nat_add_distrib)
  have g: "py_getitem (undo_data (record_undo d s)) (undo_index (record_undo d s)) = Inr d"
    using b by (simp add: d i py_getitem_def nth_append min_def)
  have "log_ok (record_undo d s)"
    using b by (simp add: log_ok_def l i)
  with d i l g show ?thesis by blast
qed

theorem record_undo_witness:
  "log_ok two_entry_log
   \<and> undo_data (record_undo (DeleteEntities [1] [''B'']) two_entry_log)
       = [RestoreEntities [0] [''A''], DeleteEntities [1] [''B'']]
   \<and> undo_index (record_undo (DeleteEntities [1] [''B'']) two_entry_log) = 1"
proof -
  have h: "log_ok two_entry_log"
    by (simp add: log_ok_def two_entry_log_def new_scene_def)
  show ?thesis
    using h record_undo_truncates_appends_advances [OF h, of "DeleteEntities [1] [''B'']"]
    by (simp add: two_entry_log_def new_scene_def)
qed

text \<open>
  C10.  On a log whose cursor is \<open>-1\<close> or the position of an entry, \<open>undo\<close> with a
  cursor of at least 0 returns with the cursor one lower, and \<open>redo\<close> with an entry after
  the cursor returns with the cursor one higher, whether or not applying the entry raised;
  the log itself is untouched.  Where applying the entry raised, the scene is the one
  before, but for the selection being redrawn.
\<close>

theorem undo_redo_consume_entry:
  assumes "log_ok w"
  shows "(0 \<le> undo_index w \<longrightarrow>
           (\<exists>w'. undo rt w = Inr w' \<and> undo_index w' = undo_index w - 1 \<and> undo_data w' = undo_data w
              \<and> (\<forall>x. undo_body rt (undo_data w ! nat (undo_index w)) w = Inl x
                      \<longrightarrow> w' = (render_selection w)\<lparr>undo_index := undo_index w - 1\<rparr>)))
       \<and> (undo_index w + 2 \<le> int (length (undo_data w)) \<longrightarrow>
           (\<exists>w'. redo rt w = Inr w' \<and> undo_index w' = undo_index w + 1 \<and> undo_data w' = undo_data w
              \<and> (\<forall>x. redo_body rt (undo_data w ! nat (undo_index w + 1)) w = Inl x
                      \<longrightarrow> w' = (render_selection w)\<lparr>undo_index := undo_index w + 1\<rparr>)))"
proof (intro conjI impI)
  assume g: "0 \<le> undo_index w"
  with assms have r: "py_getitem (undo_data w) (undo_index w) = Inr (undo_data w ! nat (undo_index w))"
    by (simp add: log_ok_def py_getitem_in_range)
  show "\<exists>w'. undo rt w = Inr w' \<and> undo_index w' = undo_index w - 1 \<and> undo_data w' = undo_data w
              \<and> (\<forall>x. undo_body rt (undo_data w ! nat (undo_index w)) w = Inl x
                      \<longrightarrow> w' = (render_selection w)\<lparr>undo_index := undo_index w - 1\<rparr>)"
    using g r by (auto simp: undo_def swallow_undo_log) (simp add: swallow_def)
next
  assume g: "undo_index w + 2 \<le> int (length (undo_data w))"
  with assms have r: "py_getitem (undo_data w) (undo_index w + 1) = Inr (undo_data w ! nat (undo_index w + 1))"
    by (simp add: log_ok_def py_getitem_in_range)
  show "\<exists>w'. redo rt w = Inr w' \<and> undo_index w' = undo_index w + 1 \<and> undo_data w' = undo_data w
              \<and> (\<forall>x. redo_body rt (undo_data w ! nat (undo_index w + 1)) w = Inl x
                      \<longrightarrow> w' = (render_selection w)\<lparr>undo_index := undo_index w + 1\<rparr>)"
    using g r by (auto simp: redo_def swallow_redo_log) (simp add: swallow_def)
qed


theorem undo_redo_consume_entry_witness:
  "log_ok empty_changes_world \<and> 0 \<le> undo_index empty_changes_world
   \<and> undo_index empty_changes_world + 2 \<le> int (length (undo_data empty_changes_world))
   \<and> undo_body toy_rt (undo_data empty_changes_world ! nat (undo_index empty_changes_world))
        empty_changes_world = Inl IndexError
   \<and> (\<exists>w'. undo toy_rt empty_changes_world = Inr w' \<and> undo_index w' = - 1
          \<and> w' = (render_selection empty_changes_world)\<lparr>undo_index := - 1\<rparr>)
   \<and> (\<exists>w'. redo toy_rt empty_changes_world = Inr w' \<and> undo_index w' = 1)"
proof -
  have h: "log_ok empty_changes_world"
    by (simp add: log_ok_def empty_changes_world_def)
  have b: "undo_body toy_rt (undo_data empty_changes_world ! nat (undo_index empty_changes_world))
        empty_changes_world = Inl IndexError"
    by (simp add: empty_changes_world_def)
  show ?thesis
    using h b undo_redo_consume_entry [OF h, of toy_rt]
    by (simp add: empty_changes_world_def)
qed

subsection \<open>The grid\<close>

lemma leave_length [simp]: "length (scenes (leave i j w ed)) = length (scenes ed)"
  by (simp add: leave_def)

lemma unload_at_length:
  "unload_at ed p = Inr ed' \<Longrightarrow> length (scenes ed') = length (scenes ed)"
  by (auto simp: unload_at_def split: sum.splits)

lemma unload_at_error: "unload_at ed p = Inl e \<Longrightarrow> e = IndexError"
  by (auto simp: unload_at_def py_norm_def split: sum.splits if_splits)

lemma fold_unload_length:
  "fold_exn unload_at ed ps = Inr ed' \<Longrightarrow> length (scenes ed') = length (scenes ed)"
  by (induction ps arbitrary: ed) (auto split: sum.splits dest: unload_at_length)

lemma fold_unload_error: "fold_exn unload_at ed ps = Inl e \<Longrightarrow> e = IndexError"
  by (induction ps arbitrary: ed) (auto split: sum.splits dest: unload_at_error)

lemma goto_scene_past_the_grid:
  assumes "int (length (scenes ed)) \<le> x"
  shows "goto_scene rt x y ed = Inl IndexError"
proof (cases "fold_exn unload_at ed all_cells")
  case (Inl e)
  then show ?thesis by (simp add: goto_scene_def fold_unload_error [OF Inl])
next
  case (Inr ed1)
  have "length (scenes ed1) = length (scenes ed)" by (rule fold_unload_length [OF Inr])
  with assms have "py_norm (length (scenes ed1)) x = Inl IndexError"
    by (simp add: py_norm_def)
  with Inr show ?thesis by (simp add: goto_scene_def)
qed

lemma initial_scenes_length: "length initial_scenes = 8"
  by (simp add: initial_scenes_def)

lemma initial_scenes_coordinates:
  "i < 8 \<Longrightarrow> j < 8 \<Longrightarrow> coordinates (initial_scenes ! i ! j) = (int i, int j)"
  by (simp add: initial_scenes_def new_scene_def)

text \<open>
  C9.  The hotkeys clamp the coordinates to \<open>0..8\<close>, and the grid has the columns
  \<open>0..7\<close>: with the current scene in column 7, shift+alt+d asks \<open>goto_scene\<close> for
  column 8, and indexing the grid raises IndexError.
\<close>

theorem hotkey_leaves_the_grid:
  "adjacent ''d'' (coordinates (scenes corner_editor ! 7 ! 0)) = (8, 0)
   \<and> level_menu_input toy_rt True True ''d'' corner_editor = Inl IndexError"
proof -
  have c: "coordinates (scenes corner_editor ! 7 ! 0) = (7, 0)"
    using initial_scenes_coordinates [of 7 0] by (simp add: corner_editor_def)
  have a: "adjacent ''d'' (7, 0) = (8, 0)"
    by (simp add: adjacent_def clamp_def)
  have k: "py_in_str ''d'' ''wasd''"
    by (simp add: py_in_str_def)
  have g: "goto_scene toy_rt 8 0 corner_editor = Inl IndexError"
    by (rule goto_scene_past_the_grid) (simp add: corner_editor_def initial_scenes_length)
  have "level_menu_input toy_rt True True ''d'' corner_editor = goto_scene toy_rt 8 0 corner_editor"
    using k c a by (simp add: level_menu_input_def corner_editor_def)
  with g c a show ?thesis by simp
qed

subsection \<open>Selection and registry\<close>

lemma set_py_insert [simp]: "set (py_insert xs i x) = insert x (set xs)"
proof -
  have "set (take n xs) \<union> set (drop n xs) = set xs" for n
    by (metis append_take_drop_id set_append)
  then show ?thesis by (auto simp: py_insert_def Let_def)
qed

lemma restore_one_entities_grow: "set (entities w) \<subseteq> set (entities (restore_one rt w p))"
  by (auto simp: restore_one_def alloc_def getattr_def Let_def split: sum.splits option.splits)

lemma restore_entities_grow: "set (entities w) \<subseteq> set (entities (restore_entities rt ids rs w))"
proof -
  have "set (entities w) \<subseteq> set (entities (foldl (restore_one rt) w ps))" for ps
  proof (induction ps arbitrary: w)
    case Nil
    then show ?case by simp
  next
    case (Cons p ps)
    show ?case using restore_one_entities_grow [of w rt p] Cons [of "restore_one rt w p"] by auto
  qed
  then show ?thesis by (simp add: restore_entities_def)
qed

lemma remove_and_destroy_alive:
  "alive (heap (remove_and_destroy w e) r) = (alive (heap w r) \<and> r \<noteq> e)"
  by (simp add: remove_and_destroy_def destroy_def)

lemma foldl_remove_and_destroy_alive:
  "alive (heap (foldl remove_and_destroy w es) r) = (alive (heap w r) \<and> r \<notin> set es)"
  by (induction es arbitrary: w) (auto simp: remove_and_destroy_alive)

lemma remove_and_destroy_keeps:
  "x \<in> set (entities w) \<Longrightarrow> x \<noteq> e \<Longrightarrow> x \<in> set (entities (remove_and_destroy w e))"
  by (simp add: remove_and_destroy_def)

lemma foldl_remove_and_destroy_keeps:
  "x \<in> set (entities w) \<Longrightarrow> x \<notin> set es \<Longrightarrow> x \<in> set (entities (foldl remove_and_destroy w es))"
  by (induction es arbitrary: w) (auto simp: remove_and_destroy_keeps)

lemma remove_from_selection_subset:
  "set (selection (remove_from_selection w e)) \<subseteq> set (selection w)"
  using set_remove1_subset [of e "selection w"] by (auto simp: remove_from_selection_def)

lemma foldl_remove_from_selection_subset:
  "set (selection (foldl remove_from_selection w es)) \<subseteq> set (selection w)"
proof (induction es arbitrary: w)
  case Nil
  then show ?case by simp
next
  case (Cons e es)
  show ?case
    using Cons [of "remove_from_selection w e"] remove_from_selection_subset [of w e] by auto
qed

lemma delete_entities_targets_unselected:
  assumes "delete_entities ids w = Inr w1"
    and "map_exn (py_getitem (entities w)) ids = Inr ts"
  shows "set (selection (render_selection w1)) \<inter> set ts = {}"
  using assms by (auto simp: delete_entities_def foldl_remove_and_destroy_alive)

lemma delete_entities_invariant:
  assumes "delete_entities ids w = Inr w1" and "set (selection w) \<subseteq> set (entities w)"
  shows "set (selection (render_selection w1)) \<subseteq> set (entities (render_selection w1))"
proof -
  from assms(1) obtain ts where ts: "map_exn (py_getitem (entities w)) ids = Inr ts"
    and w1: "w1 = foldl remove_and_destroy (foldl remove_from_selection w ts) ts"
    by (auto simp: delete_entities_def split: sum.splits)
  show ?thesis
  proof
    fix x assume x: "x \<in> set (selection (render_selection w1))"
    then have "x \<notin> set ts" using delete_entities_targets_unselected [OF assms(1) ts] by auto
    moreover from x have "x \<in> set (selection w)"
      using foldl_remove_from_selection_subset [of w ts] by (auto simp: w1)
    ultimately show "x \<in> set (entities (render_selection w1))"
      using assms(2) by (auto simp: w1 intro!: foldl_remove_and_destroy_keeps)
  qed
qed

lemma render_selection_invariant:
  "set (selection w) \<subseteq> set (entities w) \<Longrightarrow>
   set (selection (render_selection w)) \<subseteq> set (entities (render_selection w))"
  by auto

lemma undo_body_invariant:
  assumes "set (selection w) \<subseteq> set (entities w)"
  shows "set (selection (render_selection (swallow w (undo_body rt cur w))))
         \<subseteq> set (entities (render_selection (swallow w (undo_body rt cur w))))"
proof (cases "undo_body rt cur w")
  case (Inl e)
  then show ?thesis using assms by (auto simp: swallow_def)
next
  case (Inr w1)
  show ?thesis
  proof (cases cur)
    case (RestoreEntities ids rs)
    with Inr have "w1 = restore_entities rt ids rs w" by simp
    then show ?thesis using assms restore_entities_grow [of w rt ids rs] Inr
      by (auto simp: swallow_def)
  next
    case (DeleteEntities ids rs)
    with Inr have "delete_entities ids w = Inr w1" by simp
    from delete_entities_invariant [OF this assms] show ?thesis using Inr by (simp add: swallow_def)
  next
    case (Changes cs)
    with Inr obtain c cs' where "cs = c # cs'" "w1 = foldl revert_change w cs"
      by (cases cs) auto
    then show ?thesis using assms Inr by (auto simp: swallow_def)
  qed
qed

lemma redo_body_invariant:
  assumes "set (selection w) \<subseteq> set (entities w)"
  shows "set (selection (render_selection (swallow w (redo_body rt cur w))))
         \<subseteq> set (entities (render_selection (swallow w (redo_body rt cur w))))"
proof (cases "redo_body rt cur w")
  case (Inl e)
  then show ?thesis using assms by (auto simp: swallow_def)
next
  case (Inr w1)
  show ?thesis
  proof (cases cur)
    case (DeleteEntities ids rs)
    with Inr have "w1 = restore_entities rt ids rs w" by simp
    then show ?thesis using assms restore_entities_grow [of w rt ids rs] Inr
      by (auto simp: swallow_def)
  next
    case (RestoreEntities ids rs)
    with Inr have "delete_entities ids w = Inr w1" by simp
    from delete_entities_invariant [OF this assms] show ?thesis using Inr by (simp add: swallow_def)
  next
    case (Changes cs)
    with Inr obtain c cs' where "cs = c # cs'" "w1 = foldl reapply_change w cs"
      by (cases cs) auto
    then show ?thesis using assms Inr by (auto simp: swallow_def)
  qed
qed

lemma delete_selected_selection:
  "delete_selected rt w = w \<or> selection (delete_selected rt w) = []"
  by (auto simp: delete_selected_def Let_def split: sum.splits)

text \<open>
  C8 (as the code has it).  Deleting the selection, undoing and redoing each keep the
  selection inside the registry when it was inside before, and an entity that undo or
  redo takes out of the registry is not selected afterwards.  The selection is not always
  inside the registry, though: the edge-scale tool selects its own helper entity.
\<close>

theorem removals_keep_selection_in_registry:
  assumes "set (selection w) \<subseteq> set (entities w)"
  shows "set (selection (delete_selected rt w)) \<subseteq> set (entities (delete_selected rt w))
       \<and> (\<forall>w'. undo rt w = Inr w' \<longrightarrow> set (selection w') \<subseteq> set (entities w'))
       \<and> (\<forall>w'. redo rt w = Inr w' \<longrightarrow> set (selection w') \<subseteq> set (entities w'))
       \<and> (\<forall>ids w1 ts. delete_entities ids w = Inr w1
              \<and> map_exn (py_getitem (entities w)) ids = Inr ts
            \<longrightarrow> set (selection (render_selection w1)) \<inter> set ts = {})"
proof (intro conjI allI impI)
  show "set (selection (delete_selected rt w)) \<subseteq> set (entities (delete_selected rt w))"
    using delete_selected_selection [of rt w] assms by auto
next
  fix w' assume u: "undo rt w = Inr w'"
  show "set (selection w') \<subseteq> set (entities w')"
  proof (cases "undo_index w < 0")
    case True
    with u assms show ?thesis by (simp add: undo_def)
  next
    case False
    with u obtain cur where
      "w' = (render_selection (swallow w (undo_body rt cur w)))\<lparr>undo_index := undo_index w - 1\<rparr>"
      by (auto simp: undo_def split: sum.splits)
    then have "selection w' = selection (render_selection (swallow w (undo_body rt cur w)))"
      and "entities w' = entities (render_selection (swallow w (undo_body rt cur w)))"
      by simp_all
    with undo_body_invariant [OF assms, of rt cur] show ?thesis by (simp only:)
  qed
next
  fix w' assume u: "redo rt w = Inr w'"
  show "set (selection w') \<subseteq> set (entities w')"
  proof (cases "undo_index w + 2 > int (length (undo_data w))")
    case True
    with u assms show ?thesis by (simp add: redo_def)
  next
    case False
    with u obtain cur where
      "w' = (render_selection (swallow w (redo_body rt cur w)))\<lparr>undo_index := undo_index w + 1\<rparr>"
      by (auto simp: redo_def split: sum.splits)
    then have "selection w' = selection (render_selection (swallow w (redo_body rt cur w)))"
      and "entities w' = entities (render_selection (swallow w (redo_body rt cur w)))"
      by simp_all
    with redo_body_invariant [OF assms, of rt cur] show ?thesis by (simp only:)
  qed
next
  fix ids w1 ts
  assume "delete_entities ids w = Inr w1 \<and> map_exn (py_getitem (entities w)) ids = Inr ts"
  then show "set (selection (render_selection w1)) \<inter> set ts = {}"
    using delete_entities_targets_unselected by blast
qed


theorem removals_keep_selection_witness:
  "set (selection created_b_world) \<subseteq> set (entities created_b_world)
   \<and> \<not> isl (undo toy_rt created_b_world)
   \<and> \<not> isl (delete_entities [1] created_b_world)
   \<and> map_exn (py_getitem (entities created_b_world)) [1] = Inr [1]
   \<and> set (selection (projr (undo toy_rt created_b_world)))
        \<subseteq> set (entities (projr (undo toy_rt created_b_world)))
   \<and> set (selection (render_selection (projr (delete_entities [1] created_b_world)))) \<inter> set [1] = {}"
proof -
  have h: "set (selection created_b_world) \<subseteq> set (entities created_b_world)"
    by (simp add: created_b_world_def abc_world_def)
  have u: "\<not> isl (undo toy_rt created_b_world)"
    by (simp add: undo_def created_b_world_def abc_world_def py_getitem_def)
  have m: "map_exn (py_getitem (entities created_b_world)) [1] = Inr [1]"
    by (simp add: created_b_world_def abc_world_def py_getitem_def)
  have d: "\<not> isl (delete_entities [1] created_b_world)"
    by (simp add: delete_entities_def created_b_world_def abc_world_def py_getitem_def)
  from u have u': "undo toy_rt created_b_world = Inr (projr (undo toy_rt created_b_world))" by simp
  from d have d': "delete_entities [1] created_b_world = Inr (projr (delete_entities [1] created_b_world))"
    by simp
  show ?thesis
    using h u d m u' d' removals_keep_selection_in_registry [OF h, of toy_rt]
    by blast
qed

text \<open>
  C8 as stated fails: starting the edge-scale tool on the entity at index 0 leaves the
  helper, which is no entity of the registry, as the selection.
\<close>

theorem helper_selected_outside_registry:
  "set (selection placed_world) \<subseteq> set (entities placed_world)
   \<and> \<not> isl (start_scaling 11 10 (Some 0) (Some (0, 1, 0)) placed_world)
   \<and> selection (projr (start_scaling 11 10 (Some 0) (Some (0, 1, 0)) placed_world)) = [10]
   \<and> entities (projr (start_scaling 11 10 (Some 0) (Some (0, 1, 0)) placed_world)) = [0, 1, 2]
   \<and> \<not> set (selection (projr (start_scaling 11 10 (Some 0) (Some (0, 1, 0)) placed_world)))
        \<subseteq> set (entities (projr (start_scaling 11 10 (Some 0) (Some (0, 1, 0)) placed_world)))"
  by (simp add: start_scaling_def placed_world_def abc_world_def placed_def unit_transform_def
      getattr_def setattr_def py_int_def render_selection_def Let_def)

subsection \<open>Manipulator release\<close>


















lemma record_undo_fields [simp]:
  "entities (record_undo d w) = entities w"
  "selection (record_undo d w) = selection w"
  "undo_index (record_undo d w) = undo_index w + 1"
  by (simp_all add: record_undo_def)

lemma record_undo_heap [simp]: "heap (record_undo d w) = heap w"
  by (simp add: record_undo_def)












lemma dragged_refl: "dragged w w"
  by (simp add: dragged_def)










subsection \<open>Loading a scene\<close>

lemma alloc_fields [simp]:
  "fst (alloc ob w) = next_ref w"
  "entities (snd (alloc ob w)) = entities w"
  "selection (snd (alloc ob w)) = selection w"
  "undo_data (snd (alloc ob w)) = undo_data w"
  "undo_index (snd (alloc ob w)) = undo_index w"
  "scene_parent (snd (alloc ob w)) = scene_parent w"
  "path (snd (alloc ob w)) = path w"
  "name (snd (alloc ob w)) = name w"
  "files (snd (alloc ob w)) = files w"
  "next_ref (snd (alloc ob w)) = Suc (next_ref w)"
  "heap (snd (alloc ob w)) = (heap w)(next_ref w := ob)"
  by (simp_all add: alloc_def)

lemma setattr_cls [simp]: "cls (heap (setattr r k v w) q) = cls (heap w q)"
  by (simp add: setattr_def)













lemma attrs_only_refl [simp]: "attrs_only w w"
  by (simp add: attrs_only_def)






lemma load_not_started:
  "path w = None \<or> is_loaded w \<or> (\<exists>p. path w = Some p \<and> files w p = None)
     \<or> (\<exists>x. entity_init rt Map.empty = Inl x) \<Longrightarrow> load rt w = (None, w)"
  by (auto simp: load_def split: option.splits)


























end
